theory Spec2Isabelle
  imports Complex_Main "HOL-Library.Word" "HOL-Library.Sublist"
begin

section \<open>Rollup fees: the L1 data fee and the fee validator\<close>

text \<open>
  A model of \<^verbatim>\<open>l2geth/rollup/fees/rollup_fee.go\<close> and of the two view functions of
  \<^verbatim>\<open>OVM_GasPriceOracle.sol\<close>. Go's \<^verbatim>\<open>uint64\<close> is \<open>64 word\<close> (arithmetic wraps), a byte
  is \<open>8 word\<close>, Solidity's \<^verbatim>\<open>uint256\<close> is \<open>256 word\<close>, and the value of a \<^verbatim>\<open>*big.Int\<close>
  is an \<open>int\<close>. The calculators only ever build fresh big integers
  (\<^verbatim>\<open>new(big.Int).Op(...)\<close>), so they are modelled on values; the fee validator is
  modelled over an explicit store of big.Int and big.Float objects, because one of
  its properties is that it writes to none of its arguments.
\<close>

type_synonym byte = "8 word"
type_synonym uint64 = "64 word"
type_synonym uint256 = "256 word"

subsection \<open>Byte cost model\<close>

text \<open>
  \<^verbatim>\<open>zeroesAndOnes\<close>: the loop over the slice, with its two \<^verbatim>\<open>uint64\<close> counters as
  accumulators.
\<close>

fun zeroesAndOnes_loop :: "byte list \<Rightarrow> uint64 \<Rightarrow> uint64 \<Rightarrow> uint64 \<times> uint64" where
  "zeroesAndOnes_loop [] zeroes ones = (zeroes, ones)"
| "zeroesAndOnes_loop (byt # rest) zeroes ones =
     (if byt = 0 then zeroesAndOnes_loop rest (zeroes + 1) ones
      else zeroesAndOnes_loop rest zeroes (ones + 1))"

definition zeroesAndOnes :: "byte list \<Rightarrow> uint64 \<times> uint64" where
  "zeroesAndOnes data = zeroesAndOnes_loop data 0 0"

text \<open>
  Modelled from the spec: the constants \<^verbatim>\<open>params.TxDataZeroGas\<close> and
  \<^verbatim>\<open>params.TxDataNonZeroGasEIP2028\<close> of the \<^verbatim>\<open>params\<close> package, which is not among the
  sources; the specification fixes them at 4 and 16 cost units. Both are \<^verbatim>\<open>uint64\<close>
  constants in Go.
\<close>

definition TxDataZeroGas :: uint64 where
  "TxDataZeroGas = 4"

definition TxDataNonZeroGasEIP2028 :: uint64 where
  "TxDataNonZeroGasEIP2028 = 16"

text \<open>
  \<^verbatim>\<open>CalculateL1GasUsed\<close>: the two products and their sum are \<^verbatim>\<open>uint64\<close> operations;
  \<^verbatim>\<open>SetUint64\<close> reads the sum as an unsigned number and the final \<^verbatim>\<open>Add\<close> is exact.
\<close>

definition CalculateL1GasUsed :: "byte list \<Rightarrow> int \<Rightarrow> int" where
  "CalculateL1GasUsed data overhead =
     (let (zeroes, ones) = zeroesAndOnes data;
          zeroesCost = zeroes * TxDataZeroGas;
          onesCost = ones * TxDataNonZeroGasEIP2028;
          l1Cost = uint (zeroesCost + onesCost)
      in l1Cost + overhead)"

text \<open>\<^verbatim>\<open>CalculateL1Fee\<close>: two exact big-integer multiplications.\<close>

definition CalculateL1Fee :: "byte list \<Rightarrow> int \<Rightarrow> int \<Rightarrow> int \<Rightarrow> int" where
  "CalculateL1Fee data overhead l1GasPrice scalar =
     (let cost = CalculateL1GasUsed data overhead;
          l1Fee = cost * l1GasPrice
      in l1Fee * scalar)"

text \<open>
  The specification's counts: the number of zero bytes and of non-zero bytes of a
  byte sequence, as natural numbers.
\<close>

definition zeroCount :: "byte list \<Rightarrow> nat" where
  "zeroCount data = length (filter (\<lambda>b. b = 0) data)"

definition nonZeroCount :: "byte list \<Rightarrow> nat" where
  "nonZeroCount data = length (filter (\<lambda>b. b \<noteq> 0) data)"

subsection \<open>Floating-point values\<close>

text \<open>
  The fee validator multiplies by \<^verbatim>\<open>*big.Float\<close> thresholds and goes through
  \<^verbatim>\<open>float64\<close>. A floating-point value is modelled by the number it denotes: a finite
  value is the rational it stands for (the sign of a zero is dropped: nothing below
  depends on it), an infinity carries its sign (\<open>True\<close> for negative). \<^verbatim>\<open>big.Float\<close>
  multiplication never produces a NaN (it panics instead), so none is needed.
  Rounding is written out on rationals.
\<close>

datatype float_val = Finite rat | Infinite bool

text \<open>\<^verbatim>\<open>bits.Len\<close>: the number of bits needed to write a non-negative number.\<close>

function bits_Len :: "int \<Rightarrow> int" where
  "bits_Len n = (if n \<le> 0 then 0 else 1 + bits_Len (n div 2))"
  by pat_completeness auto
termination
  by (relation "measure nat") auto

declare bits_Len.simps [simp del]

definition pow2 :: "int \<Rightarrow> rat" where
  "pow2 e = (if 0 \<le> e then 2 ^ nat e else 1 / 2 ^ nat (- e))"

text \<open>
  The binary exponent of a non-zero value in \<^verbatim>\<open>big.Float\<close>'s normal form
  \<open>x = m * 2 ^ e\<close> with \<open>1/2 \<le> \<bar>m\<bar> < 1\<close>: the bit length of the integer part when
  \<open>1 \<le> \<bar>x\<bar>\<close>, and otherwise the \<open>e \<le> 0\<close> with \<open>2 ^ - e < 1 / \<bar>x\<bar> \<le> 2 ^ (1 - e)\<close>.
\<close>

definition exponent :: "rat \<Rightarrow> int" where
  "exponent x =
     (if 1 \<le> \<bar>x\<bar> then bits_Len \<lfloor>\<bar>x\<bar>\<rfloor>
      else 1 - bits_Len (\<lceil>1 / \<bar>x\<bar>\<rceil> - 1))"

definition round_half_even :: "rat \<Rightarrow> int" where
  "round_half_even x =
     (let f = \<lfloor>x\<rfloor>; d = x - of_int f
      in if d < 1 / 2 then f else if 1 / 2 < d then f + 1
         else if even f then f else f + 1)"

text \<open>
  Rounding to \<open>p\<close> mantissa bits in mode \<^verbatim>\<open>ToNearestEven\<close>, the mode of every
  \<^verbatim>\<open>big.Float\<close> that \<^verbatim>\<open>new(big.Float)\<close> creates.
\<close>

definition round_prec :: "nat \<Rightarrow> rat \<Rightarrow> rat" where
  "round_prec p x =
     (if x = 0 then 0
      else let q = pow2 (exponent x - int p) in of_int (round_half_even (x / q)) * q)"

text \<open>
  \<^verbatim>\<open>big.Float\<close> exponents are \<^verbatim>\<open>int32\<close>: a result whose exponent exceeds \<^verbatim>\<open>MaxExp\<close>
  becomes an infinity, one below \<^verbatim>\<open>MinExp\<close> becomes zero (\<^verbatim>\<open>setExpAndRound\<close>).
\<close>

definition setExpAndRound :: "nat \<Rightarrow> rat \<Rightarrow> float_val" where
  "setExpAndRound p x =
     (if x = 0 then Finite 0
      else if exponent x < - 2147483648 then Finite 0
      else if 2147483647 < exponent x then Infinite (x < 0)
      else let r = round_prec p x
           in if 2147483647 < exponent r then Infinite (x < 0) else Finite r)"

text \<open>
  The product \<^verbatim>\<open>x * y\<close> at the receiver's precision \<open>p\<close>; \<open>None\<close> is the panic
  \<^verbatim>\<open>ErrNaN\<close> that \<^verbatim>\<open>Mul\<close> raises for zero times infinity.
\<close>

definition mul_val :: "nat \<Rightarrow> float_val \<Rightarrow> float_val \<Rightarrow> float_val option" where
  "mul_val p x y =
     (case (x, y) of
        (Finite a, Finite b) \<Rightarrow> Some (setExpAndRound p (a * b))
      | (Finite a, Infinite s) \<Rightarrow> if a = 0 then None else Some (Infinite ((a < 0) \<noteq> s))
      | (Infinite s, Finite b) \<Rightarrow> if b = 0 then None else Some (Infinite (s \<noteq> (b < 0)))
      | (Infinite s, Infinite t) \<Rightarrow> Some (Infinite (s \<noteq> t)))"

text \<open>
  \<^verbatim>\<open>(*Float).Float64\<close>: the nearest \<^verbatim>\<open>float64\<close>, ties to even. Below the normal range
  (\<open>e < emin = -1022\<close>) the precision \<open>p\<close> shrinks with the exponent; a value too small
  for the smallest denormal \<open>2^-1074\<close> becomes zero, and a rounded value whose exponent
  exceeds \<open>emax = 1023\<close> becomes an infinity. The accuracy that Go returns with the
  value is dropped, as the caller drops it.
\<close>

definition Float64 :: "float_val \<Rightarrow> float_val" where
  "Float64 x =
     (case x of
        Infinite s \<Rightarrow> Infinite s
      | Finite v \<Rightarrow>
          if v = 0 then Finite 0
          else let e = exponent v - 1;
                   p = (if e < - 1022 then 53 + 1022 + e else 53)
               in if p < 0 \<or> (p = 0 \<and> \<bar>v\<bar> = pow2 e) then Finite 0
                  else if p = 0 then Finite (sgn v * pow2 (- 1074))
                  else let r = round_prec (nat p) v
                       in if 1023 < exponent r - 1 then Infinite (v < 0) else Finite r)"

definition math_Ceil :: "float_val \<Rightarrow> float_val" where
  "math_Ceil x = (case x of Infinite s \<Rightarrow> Infinite s | Finite v \<Rightarrow> Finite (of_int \<lceil>v\<rceil>))"

text \<open>
  The conversion \<^verbatim>\<open>uint64(f)\<close> of a \<^verbatim>\<open>float64\<close>: the fraction is discarded, and when the
  result does not fit in a \<^verbatim>\<open>uint64\<close> the Go specification leaves the value to the
  implementation. That choice is the parameter \<open>cvt\<close>.
\<close>

definition trunc :: "rat \<Rightarrow> int" where
  "trunc v = (if 0 \<le> v then \<lfloor>v\<rfloor> else \<lceil>v\<rceil>)"

definition uint64_of_float64 :: "(float_val \<Rightarrow> uint64) \<Rightarrow> float_val \<Rightarrow> uint64" where
  "uint64_of_float64 cvt f =
     (case f of
        Finite v \<Rightarrow> if 0 \<le> trunc v \<and> trunc v < 2 ^ 64 then word_of_int (trunc v) else cvt f
      | Infinite s \<Rightarrow> cvt f)"

subsection \<open>The store of big.Int and big.Float objects\<close>

text \<open>
  A pointer is an index into the list of objects of its type; \<^verbatim>\<open>new\<close> appends a zero
  object and returns its index; a method writes its receiver with a list update. A
  \<^verbatim>\<open>big.Float\<close> object carries its precision (0 until first set) next to its value.
  A nil pointer is \<open>None\<close>.
\<close>

type_synonym addr = nat

record big_Float =
  prec :: nat
  val :: float_val

record heap =
  Ints :: "int list"
  Floats :: "big_Float list"

datatype 'a result = Returns 'a | Panics string

definition new_Int :: "heap \<Rightarrow> addr \<times> heap" where
  "new_Int h = (length (Ints h), h\<lparr>Ints := Ints h @ [0]\<rparr>)"

definition new_Float :: "heap \<Rightarrow> addr \<times> heap" where
  "new_Float h = (length (Floats h), h\<lparr>Floats := Floats h @ [\<lparr>prec = 0, val = Finite 0\<rparr>]\<rparr>)"

text \<open>\<^verbatim>\<open>z.Set(x)\<close>, \<^verbatim>\<open>z.SetUint64(w)\<close>, \<^verbatim>\<open>z.Sub(x, y)\<close>, \<^verbatim>\<open>x.Cmp(y)\<close> of \<^verbatim>\<open>big.Int\<close>.\<close>

definition Int_Set :: "addr \<Rightarrow> addr \<Rightarrow> heap \<Rightarrow> heap" where
  "Int_Set z x h = h\<lparr>Ints := (Ints h)[z := Ints h ! x]\<rparr>"

definition Int_SetUint64 :: "addr \<Rightarrow> uint64 \<Rightarrow> heap \<Rightarrow> heap" where
  "Int_SetUint64 z w h = h\<lparr>Ints := (Ints h)[z := uint w]\<rparr>"

definition Int_Sub :: "addr \<Rightarrow> addr \<Rightarrow> addr \<Rightarrow> heap \<Rightarrow> heap" where
  "Int_Sub z x y h = h\<lparr>Ints := (Ints h)[z := Ints h ! x - Ints h ! y]\<rparr>"

definition Int_Cmp :: "addr \<Rightarrow> addr \<Rightarrow> heap \<Rightarrow> int" where
  "Int_Cmp x y h =
     (if Ints h ! x < Ints h ! y then - 1 else if Ints h ! x = Ints h ! y then 0 else 1)"

text \<open>\<^verbatim>\<open>x.Uint64()\<close>: the low 64 bits of the magnitude of \<open>x\<close>.\<close>

definition Int_Uint64 :: "addr \<Rightarrow> heap \<Rightarrow> uint64" where
  "Int_Uint64 x h = word_of_int \<bar>Ints h ! x\<bar>"

text \<open>
  \<^verbatim>\<open>z.SetUint64(w)\<close> of \<^verbatim>\<open>big.Float\<close>: a precision of 0 becomes 64, and the value is
  rounded only if the precision is below 64. \<^verbatim>\<open>z.Mul(x, y)\<close>: a precision of 0 becomes
  the larger of the operands' precisions; on zero times infinity the receiver is
  zeroed before the panic.
\<close>

definition Float_SetUint64 :: "addr \<Rightarrow> uint64 \<Rightarrow> heap \<Rightarrow> heap" where
  "Float_SetUint64 z w h =
     (let p = (if prec (Floats h ! z) = 0 then 64 else prec (Floats h ! z));
          v = (if p < 64 then round_prec p (of_int (uint w)) else of_int (uint w))
      in h\<lparr>Floats := (Floats h)[z := \<lparr>prec = p, val = Finite v\<rparr>]\<rparr>)"

definition Float_Mul :: "addr \<Rightarrow> addr \<Rightarrow> addr \<Rightarrow> heap \<Rightarrow> unit result \<times> heap" where
  "Float_Mul z x y h =
     (let p = (if prec (Floats h ! z) = 0
               then max (prec (Floats h ! x)) (prec (Floats h ! y))
               else prec (Floats h ! z))
      in case mul_val p (val (Floats h ! x)) (val (Floats h ! y)) of
           None \<Rightarrow>
             (Panics ''multiplication of zero with infinity'',
              h\<lparr>Floats := (Floats h)[z := \<lparr>prec = p, val = Finite 0\<rparr>]\<rparr>)
         | Some v \<Rightarrow> (Returns (), h\<lparr>Floats := (Floats h)[z := \<lparr>prec = p, val = v\<rparr>]\<rparr>))"

definition Float_Float64 :: "addr \<Rightarrow> heap \<Rightarrow> float_val" where
  "Float_Float64 x h = Float64 (val (Floats h ! x))"

subsection \<open>The fee validator\<close>

text \<open>
  The three package-level errors, and the error that \<^verbatim>\<open>fmt.Errorf\<close> builds with
  \<^verbatim>\<open>%w\<close>: it wraps an error and adds a detail. \<^verbatim>\<open>errors.Is\<close> follows the wrapping.
\<close>

datatype go_error =
    ErrFeeTooLow
  | ErrFeeTooHigh
  | errMissingInput
  | Wrapped go_error string
  | Upstream string

fun errors_Is :: "go_error \<Rightarrow> go_error \<Rightarrow> bool" where
  "errors_Is (Wrapped inner detail) target =
     (Wrapped inner detail = target \<or> errors_Is inner target)"
| "errors_Is err target = (err = target)"

record PaysEnoughOpts =
  UserFee :: "addr option"
  ExpectedFee :: "addr option"
  ThresholdUp :: "addr option"
  ThresholdDown :: "addr option"

text \<open>
  \<^verbatim>\<open>mulByFloat\<close>: a fresh \<^verbatim>\<open>big.Float\<close> \<open>n\<close> is set from the low 64 bits of \<open>num\<close> and
  multiplied in place by the threshold; the product goes through \<^verbatim>\<open>float64\<close>,
  \<^verbatim>\<open>math.Ceil\<close> and \<^verbatim>\<open>uint64\<close> into a fresh \<^verbatim>\<open>big.Int\<close>.
\<close>

definition mulByFloat ::
  "(float_val \<Rightarrow> uint64) \<Rightarrow> addr \<Rightarrow> addr \<Rightarrow> heap \<Rightarrow> addr result \<times> heap" where
  "mulByFloat cvt num float h =
     (let (n, h1) = new_Float h;
          h2 = Float_SetUint64 n (Int_Uint64 num h1) h1
      in case Float_Mul n n float h2 of
           (Panics msg, h3) \<Rightarrow> (Panics msg, h3)
         | (Returns _, h3) \<Rightarrow>
             let pfloat = Float_Float64 n h3;
                 rounded = math_Ceil pfloat;
                 (r, h4) = new_Int h3
             in (Returns r, Int_SetUint64 r (uint64_of_float64 cvt rounded) h4))"

text \<open>
  \<^verbatim>\<open>PaysEnough\<close>, statement by statement. The request \<open>opts\<close> itself is taken to be
  non-nil. The result is the returned error (\<open>None\<close> for \<^verbatim>\<open>nil\<close>) or a panic, together
  with the store the call leaves behind.
\<close>

definition PaysEnough ::
  "(float_val \<Rightarrow> uint64) \<Rightarrow> PaysEnoughOpts \<Rightarrow> heap \<Rightarrow> go_error option result \<times> heap" where
  "PaysEnough cvt opts h =
     (case UserFee opts of
        None \<Rightarrow> (Returns (Some (Wrapped errMissingInput ''no user fee'')), h)
      | Some userFee \<Rightarrow>
     (case ExpectedFee opts of
        None \<Rightarrow> (Returns (Some (Wrapped errMissingInput ''no expected fee'')), h)
      | Some expectedFee \<Rightarrow>
          let (fee0, h1) = new_Int h;
              h2 = Int_Set fee0 expectedFee h1
          in case (case ThresholdDown opts of
                     None \<Rightarrow> (Returns fee0, h2)
                   | Some down \<Rightarrow> mulByFloat cvt fee0 down h2) of
               (Panics msg, h3) \<Rightarrow> (Panics msg, h3)
             | (Returns fee, h3) \<Rightarrow>
                 if Int_Cmp userFee fee h3 = - 1 then (Returns (Some ErrFeeTooLow), h3)
                 else (case ThresholdUp opts of
                         None \<Rightarrow> (Returns None, h3)
                       | Some up \<Rightarrow>
                           let (overpaying, h4) = new_Int h3;
                               h5 = Int_Sub overpaying userFee expectedFee h4
                           in case mulByFloat cvt expectedFee up h5 of
                                (Panics msg, h6) \<Rightarrow> (Panics msg, h6)
                              | (Returns threshold, h6) \<Rightarrow>
                                  if Int_Cmp overpaying threshold h6 = 1
                                  then (Returns (Some ErrFeeTooHigh), h6)
                                  else (Returns None, h6))))"

text \<open>
  What a caller observes with \<^verbatim>\<open>errors.Is(err, target)\<close> on the outcome of a call.
\<close>

definition returns_error :: "go_error option result \<Rightarrow> go_error \<Rightarrow> bool" where
  "returns_error r target =
     (case r of Returns (Some err) \<Rightarrow> errors_Is err target | _ \<Rightarrow> False)"

text \<open>
  The specification's rounding rule, on values: the integer operand becomes a
  floating-point value of 64 bits of precision (through its low 64 bits, as
  \<^verbatim>\<open>Uint64\<close> gives them), is multiplied by the threshold, goes to \<^verbatim>\<open>float64\<close>, is
  rounded up to an integer and converted to an unsigned 64-bit integer. \<open>None\<close>
  stands for the one undefined product, zero times infinity.
\<close>

definition operand_float :: "int \<Rightarrow> float_val" where
  "operand_float num = Finite (of_int (uint (word_of_int \<bar>num\<bar> :: uint64)))"

definition threshold_product ::
  "(float_val \<Rightarrow> uint64) \<Rightarrow> int \<Rightarrow> float_val \<Rightarrow> int option" where
  "threshold_product cvt num t =
     (case mul_val 64 (operand_float num) t of
        None \<Rightarrow> None
      | Some p \<Rightarrow> Some (uint (uint64_of_float64 cvt (math_Ceil (Float64 p)))))"




subsection \<open>Transaction encoding and the two fee paths\<close>

type_synonym address = "160 word"
type_synonym hash = "256 word"

text \<open>
  Modelled from the spec: the type \<^verbatim>\<open>types.Transaction\<close> with its constructors and
  accessors, which are not among the sources. The specification's transaction has an
  optional recipient (absent for a contract creation), gas price, gas limit, value,
  nonce and data payload, and a signature once signed; the two constructors build an
  unsigned transaction (signature values zero). The encoder \<^verbatim>\<open>tx.EncodeRLP\<close> is not
  among the sources either: it is the parameter \<open>EncodeRLP\<close> of every function that
  calls it, returning the bytes or the error of a failed serialization.
\<close>

record Transaction =
  AccountNonce :: uint64
  Price :: int
  GasLimit :: uint64
  Recipient :: "address option"
  Amount :: int
  Payload :: "byte list"
  sigV :: int
  sigR :: int
  sigS :: int

definition NewTransaction ::
  "uint64 \<Rightarrow> address \<Rightarrow> int \<Rightarrow> uint64 \<Rightarrow> int \<Rightarrow> byte list \<Rightarrow> Transaction" where
  "NewTransaction nonce to amount gasLimit gasPrice data =
     \<lparr>AccountNonce = nonce, Price = gasPrice, GasLimit = gasLimit, Recipient = Some to,
      Amount = amount, Payload = data, sigV = 0, sigR = 0, sigS = 0\<rparr>"

definition NewContractCreation ::
  "uint64 \<Rightarrow> int \<Rightarrow> uint64 \<Rightarrow> int \<Rightarrow> byte list \<Rightarrow> Transaction" where
  "NewContractCreation nonce amount gasLimit gasPrice data =
     \<lparr>AccountNonce = nonce, Price = gasPrice, GasLimit = gasLimit, Recipient = None,
      Amount = amount, Payload = data, sigV = 0, sigR = 0, sigS = 0\<rparr>"

definition tx_Gas :: "Transaction \<Rightarrow> uint64" where
  "tx_Gas tx = GasLimit tx"

definition tx_GasPrice :: "Transaction \<Rightarrow> int" where
  "tx_GasPrice tx = Price tx"

text \<open>
  The interfaces \<^verbatim>\<open>Message\<close>, \<^verbatim>\<open>StateDb\<close> and \<^verbatim>\<open>RollupOracle\<close>: a record of what each
  method returns. An oracle query returns a value or an error.
\<close>

record Message =
  From :: address
  To :: "address option"
  GasPrice :: int
  Gas :: uint64
  Value :: int
  Nonce :: uint64
  Data :: "byte list"

record StateDb =
  GetState :: "address \<Rightarrow> hash \<Rightarrow> hash"

record RollupOracle =
  SuggestL1GasPrice :: "go_error + int"
  SuggestL2GasPrice :: "go_error + int"
  SuggestOverhead :: "go_error + int"
  SuggestScalar :: "go_error + int"

text \<open>
  The address and the slots of package \<^verbatim>\<open>rcfg\<close>, which is not among the sources, are
  a parameter of the functions that read them.
\<close>

record rcfg =
  L2GasPriceOracleAddress :: address
  L1GasPriceSlot :: hash
  OverheadSlot :: hash
  ScalarSlot :: hash

text \<open>A Go string as the bytes it holds, and \<^verbatim>\<open>bytes.Repeat\<close>.\<close>

definition bytes_of_string :: "string \<Rightarrow> byte list" where
  "bytes_of_string s = map (\<lambda>c. of_nat (of_char c)) s"

definition bytes_Repeat :: "byte list \<Rightarrow> nat \<Rightarrow> byte list" where
  "bytes_Repeat b count = concat (replicate count b)"

definition rawTransaction ::
  "(Transaction \<Rightarrow> go_error + byte list) \<Rightarrow> Transaction \<Rightarrow> bool \<Rightarrow> go_error + byte list" where
  "rawTransaction EncodeRLP tx pad =
     (case EncodeRLP tx of
        Inl err \<Rightarrow> Inl err
      | Inr raw \<Rightarrow>
          Inr (if pad then raw @ bytes_Repeat (bytes_of_string ''ff'') 68 else raw))"

definition asTransaction :: "Message \<Rightarrow> Transaction" where
  "asTransaction msg =
     (case To msg of
        None \<Rightarrow> NewContractCreation (Nonce msg) (Value msg) (Gas msg) (GasPrice msg) (Data msg)
      | Some to \<Rightarrow>
          NewTransaction (Nonce msg) to (Value msg) (Gas msg) (GasPrice msg) (Data msg))"

text \<open>\<^verbatim>\<open>ReadGPOStorageSlots\<close>: \<^verbatim>\<open>Hash.Big\<close> reads the 32-byte word as an unsigned number.\<close>

definition ReadGPOStorageSlots :: "rcfg \<Rightarrow> StateDb \<Rightarrow> int \<times> int \<times> int" where
  "ReadGPOStorageSlots cfg state =
     (let l1GasPrice = GetState state (L2GasPriceOracleAddress cfg) (L1GasPriceSlot cfg);
          overhead = GetState state (L2GasPriceOracleAddress cfg) (OverheadSlot cfg);
          scalar = GetState state (L2GasPriceOracleAddress cfg) (ScalarSlot cfg)
      in (uint l1GasPrice, uint overhead, uint scalar))"

definition CalculateL1MsgFee ::
  "(Transaction \<Rightarrow> go_error + byte list) \<Rightarrow> rcfg \<Rightarrow> Message \<Rightarrow> StateDb \<Rightarrow> go_error + int" where
  "CalculateL1MsgFee EncodeRLP cfg msg state =
     (let tx = asTransaction msg
      in case rawTransaction EncodeRLP tx True of
           Inl err \<Rightarrow> Inl err
         | Inr raw \<Rightarrow>
             let (l1GasPrice, overhead, scalar) = ReadGPOStorageSlots cfg state;
                 l1Fee = CalculateL1Fee raw overhead l1GasPrice scalar
             in Inr l1Fee)"

definition CalculateMsgFee ::
  "(Transaction \<Rightarrow> go_error + byte list) \<Rightarrow> rcfg \<Rightarrow> Message \<Rightarrow> StateDb \<Rightarrow> int \<Rightarrow>
     go_error + int" where
  "CalculateMsgFee EncodeRLP cfg msg state gasUsed =
     (case CalculateL1MsgFee EncodeRLP cfg msg state of
        Inl err \<Rightarrow> Inl err
      | Inr l1Fee \<Rightarrow>
          let l2Fee = GasPrice msg * gasUsed;
              fee = l1Fee + l2Fee
          in Inr fee)"

definition CalculateFee ::
  "(Transaction \<Rightarrow> go_error + byte list) \<Rightarrow> Transaction \<Rightarrow> RollupOracle \<Rightarrow> go_error + int" where
  "CalculateFee EncodeRLP tx gpo =
     (case SuggestL1GasPrice gpo of
        Inl err \<Rightarrow> Inl err
      | Inr l1GasPrice \<Rightarrow>
     (case SuggestOverhead gpo of
        Inl err \<Rightarrow> Inl err
      | Inr overhead \<Rightarrow>
     (case SuggestScalar gpo of
        Inl err \<Rightarrow> Inl err
      | Inr scalar \<Rightarrow>
     (case rawTransaction EncodeRLP tx False of
        Inl err \<Rightarrow> Inl err
      | Inr raw \<Rightarrow>
          let l1Fee = CalculateL1Fee raw overhead l1GasPrice scalar;
              l2GasLimit = uint (tx_Gas tx);
              l2Fee = tx_GasPrice tx * l2GasLimit;
              fee = l1Fee + l2Fee
          in Inr fee))))"

subsection \<open>The on-chain contract\<close>

text \<open>
  \<^verbatim>\<open>OVM_GasPriceOracle.sol\<close>, compiled for Solidity below 0.8: \<^verbatim>\<open>uint256\<close> arithmetic
  wraps unless it goes through \<^verbatim>\<open>SafeMath\<close>. That library is OpenZeppelin's, imported by
  the contract; its two functions used here are
  \<^verbatim>\<open>add(a, b): c = a + b; require(c >= a); return c\<close> and
  \<^verbatim>\<open>mul(a, b): if (a == 0) return 0; c = a * b; require(c / a == b); return c\<close>.
  A failed \<^verbatim>\<open>require\<close> reverts the call: \<open>None\<close>. The record holds the contract's four
  storage variables; a view function reads them and the call data.
\<close>

definition SafeMath_add :: "uint256 \<Rightarrow> uint256 \<Rightarrow> uint256 option" where
  "SafeMath_add a b = (let c = a + b in if c \<ge> a then Some c else None)"

definition SafeMath_mul :: "uint256 \<Rightarrow> uint256 \<Rightarrow> uint256 option" where
  "SafeMath_mul a b =
     (if a = 0 then Some 0
      else let c = a * b in if c div a = b then Some c else None)"

record OVM_GasPriceOracle =
  gasPrice :: uint256
  l1BaseFee :: uint256
  overhead :: uint256
  scalar :: uint256

fun getL1GasUsed_loop :: "byte list \<Rightarrow> uint256 \<Rightarrow> uint256" where
  "getL1GasUsed_loop [] total' = total'"
| "getL1GasUsed_loop (b # rest) total' =
     (if b = 0 then getL1GasUsed_loop rest (total' + 4)
      else getL1GasUsed_loop rest (total' + 16))"

definition getL1GasUsed :: "OVM_GasPriceOracle \<Rightarrow> byte list \<Rightarrow> uint256 option" where
  "getL1GasUsed c data = (let total' = getL1GasUsed_loop data 0 in SafeMath_add total' (overhead c))"

definition getL1Fee :: "OVM_GasPriceOracle \<Rightarrow> byte list \<Rightarrow> uint256 option" where
  "getL1Fee c data =
     (case getL1GasUsed c data of
        None \<Rightarrow> None
      | Some l1Cost \<Rightarrow>
          (case SafeMath_mul l1Cost (l1BaseFee c) of
             None \<Rightarrow> None
           | Some l1Fee \<Rightarrow> SafeMath_mul l1Fee (scalar c)))"

section \<open>Properties of the byte cost model\<close>

lemma zeroesAndOnes_loop_counts:
  "zeroesAndOnes_loop data z n =
     (z + of_nat (zeroCount data), n + of_nat (nonZeroCount data))"
  by (induction data arbitrary: z n) (simp_all add: zeroCount_def nonZeroCount_def)

lemma zeroesAndOnes_counts:
  "zeroesAndOnes data = (of_nat (zeroCount data), of_nat (nonZeroCount data))"
  by (simp add: zeroesAndOnes_def zeroesAndOnes_loop_counts)

lemma count_sum_length: "zeroCount data + nonZeroCount data = length data"
  by (induction data) (simp_all add: zeroCount_def nonZeroCount_def)

lemma zeroCount_append: "zeroCount (xs @ ys) = zeroCount xs + zeroCount ys"
  by (simp add: zeroCount_def)

lemma nonZeroCount_append: "nonZeroCount (xs @ ys) = nonZeroCount xs + nonZeroCount ys"
  by (simp add: nonZeroCount_def)

lemma zeroCount_replicate: "zeroCount (replicate k b) = (if b = 0 then k else 0)"
  by (induction k) (simp_all add: zeroCount_def)

lemma nonZeroCount_replicate: "nonZeroCount (replicate k b) = (if b = 0 then 0 else k)"
  by (induction k) (simp_all add: nonZeroCount_def)

text \<open>
  What the code computes for every slice: the byte cost reduced modulo \<open>2 ^ 64\<close>,
  plus the ovh.
\<close>

lemma CalculateL1GasUsed_mod:
  "CalculateL1GasUsed data ovh =
     int ((4 * zeroCount data + 16 * nonZeroCount data) mod 2 ^ 64) + ovh"
proof -
  have "uint (of_nat (zeroCount data) * 4 + of_nat (nonZeroCount data) * 16 :: uint64)
        = uint (of_nat (4 * zeroCount data + 16 * nonZeroCount data) :: uint64)"
    by (simp add: mult.commute)
  also have "\<dots> = int ((4 * zeroCount data + 16 * nonZeroCount data) mod 2 ^ 64)"
    by (simp only: uint_nat unat_of_nat) simp
  finally show ?thesis
    by (simp add: CalculateL1GasUsed_def zeroesAndOnes_counts TxDataZeroGas_def
        TxDataNonZeroGasEIP2028_def)
qed

lemma CalculateL1GasUsed_exact:
  assumes "4 * zeroCount data + 16 * nonZeroCount data < 2 ^ 64"
  shows "CalculateL1GasUsed data ovh =
           4 * int (zeroCount data) + 16 * int (nonZeroCount data) + ovh"
  using assms by (simp add: CalculateL1GasUsed_mod)

section \<open>The L1 fee calculator\<close>

text \<open>
  C1, as stated: for every byte sequence, \<^verbatim>\<open>CalculateL1GasUsed(data, overhead)\<close> is
  4 times the number of zero bytes plus 16 times the number of non-zero bytes plus the
  overhead, exactly. The code computes the byte cost in \<^verbatim>\<open>uint64\<close>, so the statement
  fails on a slice of \<open>2 ^ 60\<close> non-zero bytes: the cost \<open>16 * 2 ^ 60\<close> wraps to 0.
\<close>

theorem CalculateL1GasUsed_wraps_counterexample:
  "CalculateL1GasUsed (replicate (2 ^ 60) 1) 0 \<noteq>
     4 * int (zeroCount (replicate (2 ^ 60) 1)) + 16 * int (nonZeroCount (replicate (2 ^ 60) 1)) + 0"
  unfolding CalculateL1GasUsed_mod zeroCount_replicate nonZeroCount_replicate
  by simp

text \<open>
  C1, amended: whenever the byte cost \<open>4 * zeroCount + 16 * nonZeroCount\<close> is below
  \<open>2 ^ 64\<close> (every slice shorter than \<open>2 ^ 60\<close> bytes), \<^verbatim>\<open>CalculateL1GasUsed\<close> is exactly
  that cost plus the overhead, for every overhead; with overhead 0 it is the cost.
\<close>

theorem CalculateL1GasUsed_exact_below_wrap:
  assumes "4 * zeroCount data + 16 * nonZeroCount data < 2 ^ 64"
  shows "CalculateL1GasUsed data ovh =
           4 * int (zeroCount data) + 16 * int (nonZeroCount data) + ovh \<and>
         CalculateL1GasUsed data 0 = 4 * int (zeroCount data) + 16 * int (nonZeroCount data)"
  using assms by (simp add: CalculateL1GasUsed_mod)

theorem CalculateL1GasUsed_exact_below_wrap_witness:
  "4 * zeroCount [0, 1, 2, 0] + 16 * nonZeroCount [0, 1, 2, 0] < 2 ^ 64 \<and>
   CalculateL1GasUsed [0, 1, 2, 0] 2750 = 2790 \<and>
   CalculateL1GasUsed [0, 1, 2, 0] 0 = 40"
proof -
  have small: "4 * zeroCount [0, 1, 2, 0 :: byte] + 16 * nonZeroCount [0, 1, 2, 0 :: byte] < 2 ^ 64"
    by (simp add: zeroCount_def nonZeroCount_def)
  show ?thesis
    using small CalculateL1GasUsed_exact_below_wrap [OF small, of 2750]
    by (simp add: zeroCount_def nonZeroCount_def)
qed

text \<open>
  C2: \<^verbatim>\<open>CalculateL1Fee\<close> is the gas used times the L1 gas price times the scalar, in that
  order, as exact integer products: the scalar is a plain multiplier and nothing is
  divided or rescaled.
\<close>

theorem CalculateL1Fee_product:
  "CalculateL1Fee data ovh price sc = (CalculateL1GasUsed data ovh * price) * sc"
  by (simp add: CalculateL1Fee_def)

section \<open>The fee validator\<close>

lemma mulByFloat_eq:
  "mulByFloat cvt num float h =
     (let P = \<lparr>prec = 64, val = operand_float (Ints h ! num)\<rparr>
      in case mul_val 64 (val P) (val ((Floats h @ [P]) ! float)) of
           None \<Rightarrow> (Panics ''multiplication of zero with infinity'',
                     h\<lparr>Floats := Floats h @ [\<lparr>prec = 64, val = Finite 0\<rparr>]\<rparr>)
         | Some v \<Rightarrow> (Returns (length (Ints h)),
                      h\<lparr>Ints := Ints h @ [uint (uint64_of_float64 cvt (math_Ceil (Float64 v)))],
                        Floats := Floats h @ [\<lparr>prec = 64, val = v\<rparr>]\<rparr>))"
  by (simp add: mulByFloat_def new_Float_def Float_SetUint64_def Int_Uint64_def Float_Mul_def
      Float_Float64_def new_Int_def Int_SetUint64_def operand_float_def Let_def
      split: option.splits)

lemma mulByFloat_value:
  assumes "float < length (Floats h)"
  shows "mulByFloat cvt num float h =
     (case threshold_product cvt (Ints h ! num) (val (Floats h ! float)) of
        None \<Rightarrow> (Panics ''multiplication of zero with infinity'',
                  h\<lparr>Floats := Floats h @ [\<lparr>prec = 64, val = Finite 0\<rparr>]\<rparr>)
      | Some v \<Rightarrow> (Returns (length (Ints h)),
                   h\<lparr>Ints := Ints h @ [v],
                     Floats := Floats h @
                       [\<lparr>prec = 64,
                         val = the (mul_val 64 (operand_float (Ints h ! num))
                                      (val (Floats h ! float)))\<rparr>]\<rparr>))"
  using assms
  by (simp add: mulByFloat_eq threshold_product_def nth_append Let_def split: option.splits)

lemma threshold_product_finite:
  "threshold_product cvt num (Finite t) =
     Some (uint (uint64_of_float64 cvt
       (math_Ceil (Float64 (setExpAndRound 64 (of_int (\<bar>num\<bar> mod 2 ^ 64) * t))))))"
proof -
  have "(of_int (uint (word_of_int \<bar>num\<bar> :: uint64)) :: rat) = of_int (\<bar>num\<bar> mod 2 ^ 64)"
    by (simp add: uint_word_of_int take_bit_eq_mod)
  then show ?thesis
    by (simp add: threshold_product_def operand_float_def mul_val_def)
qed

lemma threshold_product_range:
  assumes "threshold_product cvt num t = Some v"
  shows "0 \<le> v \<and> v < 2 ^ 64"
proof -
  obtain w :: uint64 where "v = uint w"
    using assms by (auto simp add: threshold_product_def split: option.splits)
  then show ?thesis using uint_lt2p [of w] by simp
qed



text \<open>
  Without any assumption on the pointers: the store a call leaves behind, and the
  four outcomes a call with both fees present can have.
\<close>

lemma PaysEnough_store_and_outcomes:
  "take (length (Ints h)) (Ints (snd (PaysEnough cvt opts h))) = Ints h \<and>
   take (length (Floats h)) (Floats (snd (PaysEnough cvt opts h))) = Floats h \<and>
   (UserFee opts \<noteq> None \<and> ExpectedFee opts \<noteq> None \<longrightarrow>
      fst (PaysEnough cvt opts h) \<in>
        {Returns None, Returns (Some ErrFeeTooLow), Returns (Some ErrFeeTooHigh),
         Panics ''multiplication of zero with infinity''})"
proof (cases "UserFee opts")
  case None
  then show ?thesis by (simp add: PaysEnough_def)
next
  case (Some u)
  note u = Some
  show ?thesis
  proof (cases "ExpectedFee opts")
    case None
    then show ?thesis using u by (simp add: PaysEnough_def)
  next
    case (Some e)
    note e = Some
    show ?thesis
    proof (cases "ThresholdDown opts")
      case None
      note dn = None
      show ?thesis
      proof (cases "ThresholdUp opts")
        case None
        then show ?thesis using u e dn
          by (simp add: PaysEnough_def new_Int_def Int_Set_def Let_def)
      next
        case (Some up)
        then show ?thesis using u e dn
          by (simp add: PaysEnough_def new_Int_def Int_Set_def Int_Sub_def mulByFloat_eq Let_def
              split: option.splits)
      qed
    next
      case (Some down)
      note dn = Some
      show ?thesis
      proof (cases "ThresholdUp opts")
        case None
        then show ?thesis using u e dn
          by (simp add: PaysEnough_def new_Int_def Int_Set_def mulByFloat_eq Let_def
              split: option.splits)
      next
        case (Some up)
        then show ?thesis using u e dn
          by (simp add: PaysEnough_def new_Int_def Int_Set_def Int_Sub_def mulByFloat_eq Let_def
              split: option.splits)
      qed
    qed
  qed
qed

lemma PaysEnough_copy_cell:
  assumes "UserFee opts = Some u" and "ExpectedFee opts = Some e" and "e < length (Ints h)"
  shows "length (Ints h) < length (Ints (snd (PaysEnough cvt opts h))) \<and>
         Ints (snd (PaysEnough cvt opts h)) ! length (Ints h) = Ints h ! e"
proof (cases "ThresholdDown opts")
  case None
  note dn = None
  show ?thesis
  proof (cases "ThresholdUp opts")
    case None
    then show ?thesis using assms dn
      by (simp add: PaysEnough_def new_Int_def Int_Set_def Let_def nth_append)
  next
    case (Some up)
    then show ?thesis using assms dn
      by (simp add: PaysEnough_def new_Int_def Int_Set_def Int_Sub_def mulByFloat_eq Let_def
          nth_append split: option.splits)
  qed
next
  case (Some down)
  note dn = Some
  show ?thesis
  proof (cases "ThresholdUp opts")
    case None
    then show ?thesis using assms dn
      by (simp add: PaysEnough_def new_Int_def Int_Set_def mulByFloat_eq Let_def nth_append
          split: option.splits)
  next
    case (Some up)
    then show ?thesis using assms dn
      by (simp add: PaysEnough_def new_Int_def Int_Set_def Int_Sub_def mulByFloat_eq Let_def
          nth_append split: option.splits)
  qed
qed



text \<open>
  The rows of the test table \<^verbatim>\<open>TestPaysEnough\<close> that supply both fees, run through the
  model; 0.8 is the \<^verbatim>\<open>float64\<close> nearest to it, as \<^verbatim>\<open>SetFloat64(0.8)\<close> stores it.
\<close>

lemma TestPaysEnough_equal_fee:
  "fst (PaysEnough cvt
     \<lparr>UserFee = Some 0, ExpectedFee = Some 0, ThresholdUp = None, ThresholdDown = None\<rparr>
     \<lparr>Ints = [1], Floats = []\<rparr>) = Returns None"
  by code_simp

lemma TestPaysEnough_fee_too_low:
  "fst (PaysEnough cvt
     \<lparr>UserFee = Some 0, ExpectedFee = Some 1, ThresholdUp = None, ThresholdDown = None\<rparr>
     \<lparr>Ints = [1, 2], Floats = []\<rparr>) = Returns (Some ErrFeeTooLow)"
  by code_simp

lemma TestPaysEnough_fee_threshold_down:
  "fst (PaysEnough cvt
     \<lparr>UserFee = Some 0, ExpectedFee = Some 1, ThresholdUp = None, ThresholdDown = Some 0\<rparr>
     \<lparr>Ints = [1, 2], Floats = [\<lparr>prec = 53, val = Finite (1 / 2)\<rparr>]\<rparr>) = Returns None"
  by code_simp

lemma TestPaysEnough_fee_too_low_high:
  "fst (PaysEnough cvt
     \<lparr>UserFee = Some 0, ExpectedFee = Some 1, ThresholdUp = Some 0, ThresholdDown = Some 1\<rparr>
     \<lparr>Ints = [10000, 1],
      Floats = [\<lparr>prec = 53, val = Finite 3\<rparr>,
                \<lparr>prec = 53, val = Finite (3602879701896397 / 4503599627370496)\<rparr>]\<rparr>)
   = Returns (Some ErrFeeTooHigh)"
  by code_simp

lemma TestPaysEnough_fee_too_low_down_2:
  "fst (PaysEnough cvt
     \<lparr>UserFee = Some 0, ExpectedFee = Some 1, ThresholdUp = Some 0, ThresholdDown = Some 1\<rparr>
     \<lparr>Ints = [0, 10000],
      Floats = [\<lparr>prec = 53, val = Finite 3\<rparr>,
                \<lparr>prec = 53, val = Finite (3602879701896397 / 4503599627370496)\<rparr>]\<rparr>)
   = Returns (Some ErrFeeTooLow)"
  by code_simp

text \<open>Zero times an infinite threshold: \<^verbatim>\<open>Mul\<close> panics, and so does the call.\<close>

lemma PaysEnough_panics:
  "fst (PaysEnough cvt
     \<lparr>UserFee = Some 0, ExpectedFee = Some 0, ThresholdUp = None, ThresholdDown = Some 0\<rparr>
     \<lparr>Ints = [0], Floats = [\<lparr>prec = 53, val = Infinite False\<rparr>]\<rparr>)
   = Panics ''multiplication of zero with infinity''"
  by code_simp

text \<open>
  Precision is lost before \<open>2 ^ 64\<close> as well: \<open>2 ^ 53 + 1\<close> times 1 is not
  representable in \<^verbatim>\<open>float64\<close> and comes back as \<open>2 ^ 53\<close>.
\<close>

lemma threshold_product_loses_precision:
  "threshold_product cvt (2 ^ 53 + 1) (Finite 1) = Some (2 ^ 53)"
  by code_simp

text \<open>
  C7: a request without \<open>userFee\<close> or without \<open>expectedFee\<close> gets the MissingInput error,
  whatever the thresholds are, and the store is left as it was; that error is neither
  FeeTooLow nor FeeTooHigh; a request with both fees never gets MissingInput.
\<close>

theorem PaysEnough_MissingInput_iff:
  "(returns_error (fst (PaysEnough cvt opts h)) errMissingInput \<longleftrightarrow>
      UserFee opts = None \<or> ExpectedFee opts = None) \<and>
   (if UserFee opts = None \<or> ExpectedFee opts = None
    then snd (PaysEnough cvt opts h) = h \<and>
         \<not> returns_error (fst (PaysEnough cvt opts h)) ErrFeeTooLow \<and>
         \<not> returns_error (fst (PaysEnough cvt opts h)) ErrFeeTooHigh
    else True) \<and>
   errMissingInput \<noteq> ErrFeeTooLow \<and> errMissingInput \<noteq> ErrFeeTooHigh"
proof (cases "UserFee opts = None \<or> ExpectedFee opts = None")
  case True
  then show ?thesis
    by (auto simp add: PaysEnough_def returns_error_def split: option.splits)
next
  case False
  then have "fst (PaysEnough cvt opts h) \<in>
        {Returns None, Returns (Some ErrFeeTooLow), Returns (Some ErrFeeTooHigh),
         Panics ''multiplication of zero with infinity''}"
    using PaysEnough_store_and_outcomes [of h cvt opts] by simp
  then have "\<not> returns_error (fst (PaysEnough cvt opts h)) errMissingInput"
    by (auto simp add: returns_error_def)
  then show ?thesis using False by auto
qed

theorem PaysEnough_MissingInput_iff_witness:
  "returns_error
     (fst (PaysEnough (\<lambda>_. 0)
        \<lparr>UserFee = None, ExpectedFee = Some 0, ThresholdUp = Some 0, ThresholdDown = Some 0\<rparr>
        \<lparr>Ints = [0], Floats = [\<lparr>prec = 53, val = Finite (3 / 2)\<rparr>]\<rparr>))
     errMissingInput \<and>
   \<not> returns_error
     (fst (PaysEnough (\<lambda>_. 0)
        \<lparr>UserFee = Some 0, ExpectedFee = Some 0, ThresholdUp = None, ThresholdDown = None\<rparr>
        \<lparr>Ints = [1], Floats = []\<rparr>))
     errMissingInput"
  using
    PaysEnough_MissingInput_iff [of "\<lambda>_. 0"
      "\<lparr>UserFee = None, ExpectedFee = Some 0, ThresholdUp = Some 0, ThresholdDown = Some 0\<rparr>"
      "\<lparr>Ints = [0], Floats = [\<lparr>prec = 53, val = Finite (3 / 2)\<rparr>]\<rparr>"]
    PaysEnough_MissingInput_iff [of "\<lambda>_. 0"
      "\<lparr>UserFee = Some 0, ExpectedFee = Some 0, ThresholdUp = None, ThresholdDown = None\<rparr>"
      "\<lparr>Ints = [1], Floats = []\<rparr>"]
  by simp








text \<open>
  C8: \<^verbatim>\<open>mulByFloat\<close>, for a finite threshold \<open>t\<close>, returns a fresh big integer holding
  the specification's rounding rule applied to the operand: its low 64 bits as a
  floating-point value of 64 bits of precision, times \<open>t\<close>, through \<^verbatim>\<open>float64\<close>, rounded
  up and converted to \<^verbatim>\<open>uint64\<close>. Consequently the result is always below \<open>2 ^ 64\<close>
  and depends on the operand only through its low 64 bits: when the exact ceiling of
  operand times threshold is \<open>2 ^ 64\<close> or more, the result is not that ceiling.
\<close>

theorem mulByFloat_rounding_rule:
  assumes "float < length (Floats h)" and "val (Floats h ! float) = Finite t"
  shows "fst (mulByFloat cvt num float h) = Returns (length (Ints h)) \<and>
         Ints (snd (mulByFloat cvt num float h)) ! length (Ints h) =
           uint (uint64_of_float64 cvt (math_Ceil (Float64
             (setExpAndRound 64 (of_int (\<bar>Ints h ! num\<bar> mod 2 ^ 64) * t))))) \<and>
         0 \<le> Ints (snd (mulByFloat cvt num float h)) ! length (Ints h) \<and>
         Ints (snd (mulByFloat cvt num float h)) ! length (Ints h) < 2 ^ 64 \<and>
         (2 ^ 64 \<le> \<lceil>of_int (Ints h ! num) * t\<rceil> \<longrightarrow>
            Ints (snd (mulByFloat cvt num float h)) ! length (Ints h) \<noteq>
              \<lceil>of_int (Ints h ! num) * t\<rceil>)"
proof -
  let ?v = "uint (uint64_of_float64 cvt (math_Ceil (Float64
             (setExpAndRound 64 (of_int (\<bar>Ints h ! num\<bar> mod 2 ^ 64) * t)))))"
  have tp: "threshold_product cvt (Ints h ! num) (val (Floats h ! float)) = Some ?v"
    using assms(2) by (simp add: threshold_product_finite)
  have res: "fst (mulByFloat cvt num float h) = Returns (length (Ints h))"
    and cell: "Ints (snd (mulByFloat cvt num float h)) ! length (Ints h) = ?v"
    using tp by (simp_all add: mulByFloat_value [OF assms(1)])
  have range: "0 \<le> ?v \<and> ?v < 2 ^ 64"
    using threshold_product_range [OF tp] .
  show ?thesis using res cell range by auto
qed

theorem mulByFloat_rounding_rule_witness:
  "(0 :: nat) < length [\<lparr>prec = 53, val = Finite (3 / 2)\<rparr>] \<and>
   fst (mulByFloat (\<lambda>_. 0) 0 0
          \<lparr>Ints = [2 ^ 64 + 3], Floats = [\<lparr>prec = 53, val = Finite (3 / 2)\<rparr>]\<rparr>) = Returns 1 \<and>
   Ints (snd (mulByFloat (\<lambda>_. 0) 0 0
          \<lparr>Ints = [2 ^ 64 + 3], Floats = [\<lparr>prec = 53, val = Finite (3 / 2)\<rparr>]\<rparr>)) ! 1 = 5 \<and>
   (2 :: int) ^ 64 \<le> \<lceil>of_int (2 ^ 64 + 3) * (3 / 2 :: rat)\<rceil>"
proof -
  let ?h = "\<lparr>Ints = [2 ^ 64 + 3], Floats = [\<lparr>prec = 53, val = Finite (3 / 2)\<rparr>]\<rparr>"
  have l: "0 < length (Floats ?h)" by simp
  have v: "val (Floats ?h ! 0) = Finite (3 / 2)" by simp
  have c: "uint (uint64_of_float64 (\<lambda>_. 0) (math_Ceil (Float64
             (setExpAndRound 64 (of_int (\<bar>2 ^ 64 + 3\<bar> mod 2 ^ 64) * (3 / 2)))))) = 5"
    by code_simp
  have big: "(2 :: int) ^ 64 \<le> \<lceil>of_int (2 ^ 64 + 3) * (3 / 2 :: rat)\<rceil>"
    by code_simp
  show ?thesis
    using mulByFloat_rounding_rule [OF l v, of "\<lambda>_. 0" 0] c big by simp
qed


text \<open>
  C10: \<^verbatim>\<open>PaysEnough\<close> writes to no object that existed before the call: the store it
  leaves behind, whatever the outcome, extends the old one, so the user fee, the
  expected fee and both thresholds hold the values they held. With both fees
  present, the first new big integer is the copy of the expected fee on which the
  floor is computed; with a fee missing, the store is not touched at all.
\<close>

theorem PaysEnough_frame:
  "prefix (Ints h) (Ints (snd (PaysEnough cvt opts h))) \<and>
   prefix (Floats h) (Floats (snd (PaysEnough cvt opts h))) \<and>
   (case (UserFee opts, ExpectedFee opts) of
      (Some u, Some e) \<Rightarrow>
        if e < length (Ints h)
        then length (Ints h) < length (Ints (snd (PaysEnough cvt opts h))) \<and>
             Ints (snd (PaysEnough cvt opts h)) ! length (Ints h) = Ints h ! e
        else True
    | _ \<Rightarrow> snd (PaysEnough cvt opts h) = h)"
proof -
  have t: "take (length (Ints h)) (Ints (snd (PaysEnough cvt opts h))) = Ints h"
    "take (length (Floats h)) (Floats (snd (PaysEnough cvt opts h))) = Floats h"
    using PaysEnough_store_and_outcomes [of h cvt opts] by simp_all
  have p1: "prefix (Ints h) (Ints (snd (PaysEnough cvt opts h)))"
    using t(1) by (metis take_is_prefix)
  have p2: "prefix (Floats h) (Floats (snd (PaysEnough cvt opts h)))"
    using t(2) by (metis take_is_prefix)
  have c: "(case (UserFee opts, ExpectedFee opts) of
      (Some u, Some e) \<Rightarrow>
        if e < length (Ints h)
        then length (Ints h) < length (Ints (snd (PaysEnough cvt opts h))) \<and>
             Ints (snd (PaysEnough cvt opts h)) ! length (Ints h) = Ints h ! e
        else True
    | _ \<Rightarrow> snd (PaysEnough cvt opts h) = h)"
  proof (cases "UserFee opts")
    case None
    then show ?thesis by (simp add: PaysEnough_def)
  next
    case (Some u)
    note u = Some
    show ?thesis
    proof (cases "ExpectedFee opts")
      case None
      then show ?thesis using u by (simp add: PaysEnough_def)
    next
      case (Some e)
      then show ?thesis using u PaysEnough_copy_cell [OF u Some, of h cvt] by simp
    qed
  qed
  show ?thesis using p1 p2 c by simp
qed

theorem PaysEnough_frame_witness:
  "prefix [10000, 1]
     (Ints (snd (PaysEnough (\<lambda>_. 0)
        \<lparr>UserFee = Some 0, ExpectedFee = Some 1, ThresholdUp = Some 0, ThresholdDown = Some 1\<rparr>
        \<lparr>Ints = [10000, 1],
         Floats = [\<lparr>prec = 53, val = Finite 3\<rparr>,
                   \<lparr>prec = 53, val = Finite (3602879701896397 / 4503599627370496)\<rparr>]\<rparr>))) \<and>
   Ints (snd (PaysEnough (\<lambda>_. 0)
        \<lparr>UserFee = Some 0, ExpectedFee = Some 1, ThresholdUp = Some 0, ThresholdDown = Some 1\<rparr>
        \<lparr>Ints = [10000, 1],
         Floats = [\<lparr>prec = 53, val = Finite 3\<rparr>,
                   \<lparr>prec = 53, val = Finite (3602879701896397 / 4503599627370496)\<rparr>]\<rparr>))
     = [10000, 1, 1, 1, 9999, 3]"
proof -
  have ev: "Ints (snd (PaysEnough (\<lambda>_. 0)
        \<lparr>UserFee = Some 0, ExpectedFee = Some 1, ThresholdUp = Some 0, ThresholdDown = Some 1\<rparr>
        \<lparr>Ints = [10000, 1],
         Floats = [\<lparr>prec = 53, val = Finite 3\<rparr>,
                   \<lparr>prec = 53, val = Finite (3602879701896397 / 4503599627370496)\<rparr>]\<rparr>))
     = [10000, 1, 1, 1, 9999, 3]"
    by code_simp
  have "prefix (Ints \<lparr>Ints = [10000, 1],
         Floats = [\<lparr>prec = 53, val = Finite 3\<rparr>,
                   \<lparr>prec = 53, val = Finite (3602879701896397 / 4503599627370496)\<rparr>]\<rparr>)
     (Ints (snd (PaysEnough (\<lambda>_. 0)
        \<lparr>UserFee = Some 0, ExpectedFee = Some 1, ThresholdUp = Some 0, ThresholdDown = Some 1\<rparr>
        \<lparr>Ints = [10000, 1],
         Floats = [\<lparr>prec = 53, val = Finite 3\<rparr>,
                   \<lparr>prec = 53, val = Finite (3602879701896397 / 4503599627370496)\<rparr>]\<rparr>)))"
    using PaysEnough_frame by (rule conjunct1)
  then show ?thesis using ev by simp
qed


section \<open>Transaction encoding and the two fee paths\<close>

lemma concat_replicate_pair: "concat (replicate k [b, b]) = replicate (2 * k) b"
  by (induction k) simp_all

lemma signature_filler: "bytes_Repeat (bytes_of_string ''ff'') 68 = replicate 136 0x66"
  using concat_replicate_pair [of 68 "0x66 :: byte"]
  by (simp add: bytes_Repeat_def bytes_of_string_def)

lemma rawTransaction_eq:
  "rawTransaction EncodeRLP tx pad =
     (case EncodeRLP tx of
        Inl err \<Rightarrow> Inl err
      | Inr raw \<Rightarrow> Inr (if pad then raw @ replicate 136 0x66 else raw))"
  by (simp add: rawTransaction_def signature_filler split: sum.splits)

lemma CalculateL1GasUsed_filler:
  assumes "4 * zeroCount raw + 16 * nonZeroCount raw + 2176 < 2 ^ 64"
  shows "CalculateL1GasUsed (raw @ replicate 136 0x66) ovh = CalculateL1GasUsed raw ovh + 2176"
proof -
  have z: "zeroCount (raw @ replicate 136 (0x66 :: byte)) = zeroCount raw"
    by (simp add: zeroCount_append zeroCount_replicate)
  have n: "nonZeroCount (raw @ replicate 136 (0x66 :: byte)) = nonZeroCount raw + 136"
    by (simp add: nonZeroCount_append nonZeroCount_replicate)
  have a: "4 * zeroCount raw + 16 * (nonZeroCount raw + 136) < 2 ^ 64"
    using assms by simp
  have b: "4 * zeroCount raw + 16 * nonZeroCount raw < 2 ^ 64"
    using assms by simp
  show ?thesis
    unfolding CalculateL1GasUsed_mod z n using a b by simp
qed

text \<open>
  C9: when the serialization succeeds, the padded encoding is the unpadded one
  followed by 136 bytes, each the character \<open>f\<close> (0x66, neither 0xFF nor 0): the
  string \<open>ff\<close> 68 times. The filler has no zero byte and 136 non-zero bytes, which the
  byte cost model counts on top of those of the encoding, and its cost is
  \<open>136 * 16\<close>.
\<close>

theorem rawTransaction_padding:
  assumes "EncodeRLP tx = Inr raw"
  shows "rawTransaction EncodeRLP tx False = Inr raw \<and>
         rawTransaction EncodeRLP tx True = Inr (raw @ replicate 136 0x66) \<and>
         replicate 136 (0x66 :: byte) = concat (replicate 68 (bytes_of_string ''ff'')) \<and>
         bytes_of_string ''ff'' = [0x66, 0x66] \<and>
         (0x66 :: byte) \<noteq> 0xFF \<and> (0x66 :: byte) \<noteq> 0 \<and>
         zeroesAndOnes (replicate 136 0x66) = (0, 136) \<and>
         zeroesAndOnes (raw @ replicate 136 0x66) =
           (fst (zeroesAndOnes raw), snd (zeroesAndOnes raw) + 136) \<and>
         CalculateL1GasUsed (replicate 136 0x66) 0 = 136 * 16"
proof -
  have r: "rawTransaction EncodeRLP tx False = Inr raw"
    "rawTransaction EncodeRLP tx True = Inr (raw @ replicate 136 0x66)"
    using assms by (simp_all add: rawTransaction_eq)
  have f: "replicate 136 (0x66 :: byte) = concat (replicate 68 (bytes_of_string ''ff''))"
    using signature_filler by (simp add: bytes_Repeat_def)
  have s: "bytes_of_string ''ff'' = [0x66, 0x66]"
    by (simp add: bytes_of_string_def)
  have c1: "zeroesAndOnes (replicate 136 0x66) = (0, 136)"
    by (simp add: zeroesAndOnes_counts zeroCount_replicate nonZeroCount_replicate)
  have c2: "zeroesAndOnes (raw @ replicate 136 0x66) =
           (fst (zeroesAndOnes raw), snd (zeroesAndOnes raw) + 136)"
    by (simp add: zeroesAndOnes_counts zeroCount_append nonZeroCount_append
        zeroCount_replicate nonZeroCount_replicate)
  have g: "CalculateL1GasUsed (replicate 136 0x66) 0 = 136 * 16"
    unfolding CalculateL1GasUsed_mod zeroCount_replicate nonZeroCount_replicate by simp
  show ?thesis using r f s c1 c2 g by simp
qed

theorem rawTransaction_padding_witness:
  "(\<lambda>tx. Inr (Payload tx) :: go_error + byte list)
     (NewContractCreation 7 0 21000 1 [1, 0, 2]) = Inr [1, 0, 2] \<and>
   rawTransaction (\<lambda>tx. Inr (Payload tx))
     (NewContractCreation 7 0 21000 1 [1, 0, 2]) True = Inr ([1, 0, 2] @ replicate 136 0x66)"
  using rawTransaction_padding [of "\<lambda>tx. Inr (Payload tx)"
      "NewContractCreation 7 0 21000 1 [1, 0, 2]" "[1, 0, 2]"]
  by (simp add: NewContractCreation_def)


lemma zeroCount_Nil: "zeroCount [] = 0"
  by (simp add: zeroCount_def)

lemma nonZeroCount_Nil: "nonZeroCount [] = 0"
  by (simp add: nonZeroCount_def)

text \<open>
  What the two paths return under a shared snapshot, for every encoder.
\<close>

lemma CalculateFee_eq:
  assumes "SuggestL1GasPrice gpo = Inr price" and "SuggestOverhead gpo = Inr ovh"
    and "SuggestScalar gpo = Inr sc" and "EncodeRLP tx = Inr raw"
  shows "CalculateFee EncodeRLP tx gpo =
           Inr (CalculateL1Fee raw ovh price sc + tx_GasPrice tx * uint (tx_Gas tx))"
  using assms by (simp add: CalculateFee_def rawTransaction_eq)

lemma CalculateMsgFee_eq:
  assumes "ReadGPOStorageSlots cfg state = (price, ovh, sc)"
    and "EncodeRLP (asTransaction msg) = Inr raw"
  shows "CalculateMsgFee EncodeRLP cfg msg state gasUsed =
           Inr (CalculateL1Fee (raw @ replicate 136 0x66) ovh price sc + GasPrice msg * gasUsed)"
  using assms by (simp add: CalculateMsgFee_def CalculateL1MsgFee_def rawTransaction_eq)

lemma CalculateL1Fee_filler:
  assumes "4 * zeroCount raw + 16 * nonZeroCount raw + 2176 < 2 ^ 64"
  shows "CalculateL1Fee (raw @ replicate 136 0x66) ovh price sc =
           CalculateL1Fee raw ovh price sc + 2176 * price * sc"
  by (simp add: CalculateL1Fee_def CalculateL1GasUsed_filler [OF assms] algebra_simps)

text \<open>
  C4, as stated: for the same transaction content and the same snapshot, the two
  paths differ only in the L2 portion and their L1 portions are equal. The message
  path pads the encoding with 136 non-zero bytes and the full path does not, so the
  statement fails already for an unsigned transaction, where both paths encode the
  same transaction: here a contract creation with gas price 1 and gas limit 21000,
  the snapshot (1, 2750, 1) and 21000 gas used. The encoder of the example returns
  the payload; by \<open>CalculateL1Fee_filler\<close> the gap is the same for every encoder.
\<close>

theorem fee_paths_L1_portion_counterexample:
  "CalculateFee (\<lambda>tx. Inr (Payload tx))
     (asTransaction
        \<lparr>From = 0, To = None, GasPrice = 1, Gas = 21000, Value = 0, Nonce = 0, Data = []\<rparr>)
     \<lparr>SuggestL1GasPrice = Inr 1, SuggestL2GasPrice = Inr 1, SuggestOverhead = Inr 2750,
      SuggestScalar = Inr 1\<rparr>
     = Inr (2750 + 1 * 21000) \<and>
   CalculateMsgFee (\<lambda>tx. Inr (Payload tx))
     \<lparr>L2GasPriceOracleAddress = 15, L1GasPriceSlot = 2, OverheadSlot = 3, ScalarSlot = 4\<rparr>
     \<lparr>From = 0, To = None, GasPrice = 1, Gas = 21000, Value = 0, Nonce = 0, Data = []\<rparr>
     \<lparr>GetState = (\<lambda>a k. if a = 15 \<and> k = 2 then 1 else if a = 15 \<and> k = 3 then 2750
                            else if a = 15 \<and> k = 4 then 1 else 0)\<rparr>
     21000
     = Inr (4926 + 1 * 21000) \<and>
   (2750 :: int) \<noteq> 4926"
  by (simp add: CalculateFee_def CalculateMsgFee_def CalculateL1MsgFee_def rawTransaction_eq
      ReadGPOStorageSlots_def asTransaction_def NewContractCreation_def tx_Gas_def
      tx_GasPrice_def CalculateL1Fee_def CalculateL1GasUsed_mod zeroCount_replicate
      nonZeroCount_replicate zeroCount_Nil nonZeroCount_Nil)

text \<open>
  C4, amended: under a shared snapshot both paths return the L1 fee of their byte
  string plus gas price times a gas quantity, with the same L1 fee function: the full
  path takes the encoding of the transaction and its gas limit, the message path the
  encoding of the unsigned transaction rebuilt from the message followed by the
  136-byte filler, and the gas used. Below the \<^verbatim>\<open>uint64\<close> wrap the L1 portion of the
  message path is the L1 fee of the unpadded encoding plus 2176 times the L1 gas
  price times the scalar.
\<close>

theorem fee_paths_shape:
  assumes "SuggestL1GasPrice gpo = Inr price" and "SuggestOverhead gpo = Inr ovh"
    and "SuggestScalar gpo = Inr sc"
    and "ReadGPOStorageSlots cfg state = (price, ovh, sc)"
    and "EncodeRLP tx = Inr raw" and "EncodeRLP (asTransaction msg) = Inr raw'"
  shows "CalculateFee EncodeRLP tx gpo =
           Inr (CalculateL1Fee raw ovh price sc + tx_GasPrice tx * uint (tx_Gas tx)) \<and>
         CalculateMsgFee EncodeRLP cfg msg state gasUsed =
           Inr (CalculateL1Fee (raw' @ replicate 136 0x66) ovh price sc + GasPrice msg * gasUsed) \<and>
         tx_GasPrice (asTransaction msg) = GasPrice msg \<and>
         tx_Gas (asTransaction msg) = Gas msg \<and>
         (4 * zeroCount raw' + 16 * nonZeroCount raw' + 2176 < 2 ^ 64 \<longrightarrow>
            CalculateL1Fee (raw' @ replicate 136 0x66) ovh price sc =
              CalculateL1Fee raw' ovh price sc + 2176 * price * sc)"
proof -
  have a: "tx_GasPrice (asTransaction msg) = GasPrice msg \<and> tx_Gas (asTransaction msg) = Gas msg"
    by (simp add: asTransaction_def NewTransaction_def NewContractCreation_def tx_Gas_def
        tx_GasPrice_def split: option.splits)
  show ?thesis
    using CalculateFee_eq [where EncodeRLP = EncodeRLP and tx = tx, OF assms(1,2,3,5)]
      CalculateMsgFee_eq [where EncodeRLP = EncodeRLP and msg = msg and gasUsed = gasUsed,
        OF assms(4,6)]
      CalculateL1Fee_filler [of raw' ovh price sc] a
    by simp
qed

theorem fee_paths_shape_witness:
  "CalculateFee (\<lambda>tx. Inr (Payload tx))
     (asTransaction
        \<lparr>From = 0, To = Some 9, GasPrice = 2, Gas = 21000, Value = 5, Nonce = 1, Data = [0, 7]\<rparr>)
     \<lparr>SuggestL1GasPrice = Inr 3, SuggestL2GasPrice = Inr 1, SuggestOverhead = Inr 2750,
      SuggestScalar = Inr 1\<rparr>
     = Inr (CalculateL1Fee [0, 7] 2750 3 1 + 2 * 21000) \<and>
   CalculateMsgFee (\<lambda>tx. Inr (Payload tx))
     \<lparr>L2GasPriceOracleAddress = 15, L1GasPriceSlot = 2, OverheadSlot = 3, ScalarSlot = 4\<rparr>
     \<lparr>From = 0, To = Some 9, GasPrice = 2, Gas = 21000, Value = 5, Nonce = 1, Data = [0, 7]\<rparr>
     \<lparr>GetState = (\<lambda>a k. if a = 15 \<and> k = 2 then 3 else if a = 15 \<and> k = 3 then 2750
                            else if a = 15 \<and> k = 4 then 1 else 0)\<rparr>
     20000
     = Inr (CalculateL1Fee [0, 7] 2750 3 1 + 2176 * 3 * 1 + 2 * 20000)"
proof -
  let ?msg = "\<lparr>From = 0, To = Some 9, GasPrice = 2, Gas = 21000, Value = 5, Nonce = 1,
                Data = [0, 7]\<rparr>"
  let ?gpo = "\<lparr>SuggestL1GasPrice = Inr 3, SuggestL2GasPrice = Inr 1, SuggestOverhead = Inr 2750,
      SuggestScalar = Inr 1\<rparr>"
  let ?cfg = "\<lparr>L2GasPriceOracleAddress = 15, L1GasPriceSlot = 2, OverheadSlot = 3,
      ScalarSlot = 4\<rparr>"
  let ?st = "\<lparr>GetState = (\<lambda>a k. if a = 15 \<and> k = 2 then 3 else if a = 15 \<and> k = 3 then 2750
                            else if a = 15 \<and> k = 4 then 1 else (0 :: hash))\<rparr>"
  have s: "ReadGPOStorageSlots ?cfg ?st = (3, 2750, 1)"
    by (simp add: ReadGPOStorageSlots_def)
  have e: "(\<lambda>tx. Inr (Payload tx) :: go_error + byte list) (asTransaction ?msg) = Inr [0, 7]"
    by (simp add: asTransaction_def NewTransaction_def)
  have small: "4 * zeroCount [0, 7 :: byte] + 16 * nonZeroCount [0, 7 :: byte] + 2176 < 2 ^ 64"
    by (simp add: zeroCount_def nonZeroCount_def)
  have "CalculateFee (\<lambda>tx. Inr (Payload tx)) (asTransaction ?msg) ?gpo =
           Inr (CalculateL1Fee [0, 7] 2750 3 1 +
                tx_GasPrice (asTransaction ?msg) * uint (tx_Gas (asTransaction ?msg))) \<and>
         CalculateMsgFee (\<lambda>tx. Inr (Payload tx)) ?cfg ?msg ?st 20000 =
           Inr (CalculateL1Fee ([0, 7] @ replicate 136 0x66) 2750 3 1 + GasPrice ?msg * 20000) \<and>
         tx_GasPrice (asTransaction ?msg) = GasPrice ?msg \<and>
         tx_Gas (asTransaction ?msg) = Gas ?msg \<and>
         (4 * zeroCount [0, 7 :: byte] + 16 * nonZeroCount [0, 7 :: byte] + 2176 < 2 ^ 64 \<longrightarrow>
            CalculateL1Fee ([0, 7] @ replicate 136 0x66) 2750 3 1 =
              CalculateL1Fee [0, 7] 2750 3 1 + 2176 * 3 * 1)"
    by (rule fee_paths_shape [where EncodeRLP = "\<lambda>tx. Inr (Payload tx)"
          and tx = "asTransaction ?msg" and msg = ?msg, OF _ _ _ s e e]) simp_all
  then show ?thesis using small by simp
qed


section \<open>The on-chain contract and the off-chain calculator\<close>

lemma int_div_less:
  fixes k x y :: int
  assumes "0 < k" "x < k * y"
  shows "x div k < y"
proof (rule ccontr)
  assume "\<not> x div k < y"
  then have "k * y \<le> k * (x div k)" using assms(1) by (simp add: mult_left_mono)
  moreover have "k * (x div k) + x mod k = x" by simp
  moreover have "0 \<le> x mod k" using assms(1) by simp
  ultimately show False using assms(2) by linarith
qed

lemma SafeMath_add_eq:
  "SafeMath_add a b = (if uint a + uint b < 2 ^ 256 then Some (a + b) else None)"
proof -
  have "a \<le> a + b \<longleftrightarrow> uint a + uint b < 2 ^ 256"
    using no_olen_add [of a b] by simp
  then show ?thesis by (simp add: SafeMath_add_def)
qed

lemma SafeMath_mul_eq:
  "SafeMath_mul a b = (if uint a * uint b < 2 ^ 256 then Some (a * b) else None)"
proof (cases "a = 0")
  case True
  then show ?thesis by (simp add: SafeMath_mul_def)
next
  case False
  then have pos: "0 < uint a" by (simp add: word_neq_0_conv word_less_def)
  have uc: "uint (a * b) = (uint a * uint b) mod 2 ^ 256"
    by (simp add: uint_word_ariths)
  have iff: "(a * b) div a = b \<longleftrightarrow> uint (a * b) div uint a = uint b"
    by (metis uint_div word_uint_eq_iff)
  show ?thesis
  proof (cases "uint a * uint b < 2 ^ 256")
    case True
    then have "uint (a * b) = uint a * uint b" using uc by simp
    then have "uint (a * b) div uint a = uint b" using pos by simp
    then show ?thesis using True False iff by (simp add: SafeMath_mul_def)
  next
    case over: False
    have "uint (a * b) < 2 ^ 256" using uint_lt2p [of "a * b"] by simp
    then have "uint (a * b) < uint a * uint b" using over by linarith
    then have "uint (a * b) div uint a < uint b"
      using pos by (simp add: int_div_less)
    then show ?thesis using over False iff by (simp add: SafeMath_mul_def)
  qed
qed

lemma uint_add_small:
  fixes a b :: uint256
  assumes "uint a + uint b < 2 ^ 256"
  shows "uint (a + b) = uint a + uint b"
  using assms by (simp add: uint_word_ariths)

lemma uint_mult_small:
  fixes a b :: uint256
  assumes "uint a * uint b < 2 ^ 256"
  shows "uint (a * b) = uint a * uint b"
  using assms by (simp add: uint_word_ariths)

lemma getL1GasUsed_loop_counts:
  "getL1GasUsed_loop data t = t + of_nat (4 * zeroCount data + 16 * nonZeroCount data)"
  by (induction data arbitrary: t) (simp_all add: zeroCount_def nonZeroCount_def)

lemma uint_of_nat_256:
  assumes "n < 2 ^ 64"
  shows "uint (of_nat n :: uint256) = int n"
proof -
  have "n < 2 ^ 256" using assms by (rule less_trans) simp
  then show ?thesis by (simp add: uint_nat unat_of_nat)
qed

text \<open>
  The two view functions in terms of the Go calculator, for byte costs below the
  \<^verbatim>\<open>uint64\<close> wrap: the contract returns the Go value when every \<^verbatim>\<open>SafeMath\<close> result
  fits in 256 bits, and reverts otherwise.
\<close>

lemma getL1GasUsed_eq:
  assumes "4 * zeroCount data + 16 * nonZeroCount data < 2 ^ 64"
  shows "getL1GasUsed c data =
           (if CalculateL1GasUsed data (uint (overhead c)) < 2 ^ 256
            then Some (word_of_int (CalculateL1GasUsed data (uint (overhead c)))) else None)"
proof -
  let ?n = "4 * zeroCount data + 16 * nonZeroCount data"
  have u: "uint (of_nat ?n :: uint256) = int ?n"
    using assms by (rule uint_of_nat_256)
  have g: "CalculateL1GasUsed data (uint (overhead c)) = int ?n + uint (overhead c)"
    using assms by (simp add: CalculateL1GasUsed_mod)
  have w: "(of_nat ?n :: uint256) + overhead c = word_of_int (int ?n + uint (overhead c))"
    by simp
  show ?thesis
    unfolding getL1GasUsed_def Let_def getL1GasUsed_loop_counts SafeMath_add_eq g
    using u w by simp
qed

lemma uint_word_of_int_256:
  assumes "0 \<le> x" and "x < 2 ^ 256"
  shows "uint (word_of_int x :: uint256) = x"
  using assms by (simp add: uint_word_of_int take_bit_eq_mod)

lemma CalculateL1GasUsed_nonneg:
  assumes "0 \<le> ovh"
  shows "0 \<le> CalculateL1GasUsed data ovh"
  using assms by (simp add: CalculateL1GasUsed_mod)

lemma getL1Fee_eq:
  assumes "4 * zeroCount data + 16 * nonZeroCount data < 2 ^ 64"
  shows "getL1Fee c data =
           (let g = CalculateL1GasUsed data (uint (overhead c));
                p = uint (l1BaseFee c);
                s = uint (scalar c)
            in if g < 2 ^ 256 \<and> g * p < 2 ^ 256 \<and> g * p * s < 2 ^ 256
               then Some (word_of_int (g * p * s)) else None)"
proof -
  let ?g = "CalculateL1GasUsed data (uint (overhead c))"
  let ?p = "uint (l1BaseFee c)"
  let ?s = "uint (scalar c)"
  have g0: "0 \<le> ?g" by (simp add: CalculateL1GasUsed_nonneg)
  show ?thesis
  proof (cases "?g < 2 ^ 256")
    case False
    then show ?thesis
      by (simp add: getL1Fee_def getL1GasUsed_eq [OF assms] Let_def)
  next
    case g: True
    have ug: "uint (word_of_int ?g :: uint256) = ?g"
      using g0 g by (rule uint_word_of_int_256)
    show ?thesis
    proof (cases "?g * ?p < 2 ^ 256")
      case False
      then show ?thesis
        using g ug by (simp add: getL1Fee_def getL1GasUsed_eq [OF assms] SafeMath_mul_eq Let_def)
    next
      case gp: True
      have ugp: "uint ((word_of_int ?g :: uint256) * l1BaseFee c) = ?g * ?p"
        using uint_mult_small [of "word_of_int ?g" "l1BaseFee c"] ug gp by simp
      have w: "(word_of_int ?g :: uint256) * l1BaseFee c * scalar c = word_of_int (?g * ?p * ?s)"
        by simp
      show ?thesis
        using g gp ug ugp w
        by (simp add: getL1Fee_def getL1GasUsed_eq [OF assms] SafeMath_mul_eq Let_def)
    qed
  qed
qed

text \<open>
  C3, as stated: for every byte sequence and every parameter snapshot the Go
  calculator returns the value that \<^verbatim>\<open>getL1Fee\<close> returns. The contract computes in
  \<^verbatim>\<open>uint256\<close> through \<^verbatim>\<open>SafeMath\<close> and reverts on overflow, where Go's big integers go
  on: with the default overhead 2750, scalar 1 and an L1 base fee of \<open>2 ^ 255\<close>, on the
  empty byte sequence, the contract reverts and Go returns \<open>2750 * 2 ^ 255\<close>.
\<close>

theorem getL1Fee_reverts_counterexample:
  "getL1Fee \<lparr>gasPrice = 0, l1BaseFee = 2 ^ 255, overhead = 2750, scalar = 1\<rparr> [] = None \<and>
   CalculateL1Fee []
     (uint (overhead \<lparr>gasPrice = 0, l1BaseFee = 2 ^ 255, overhead = 2750, scalar = 1\<rparr>))
     (uint (l1BaseFee \<lparr>gasPrice = 0, l1BaseFee = 2 ^ 255, overhead = 2750, scalar = 1\<rparr>))
     (uint (scalar \<lparr>gasPrice = 0, l1BaseFee = 2 ^ 255, overhead = 2750, scalar = 1\<rparr>))
     = 2750 * 2 ^ 255"
proof -
  have small: "4 * zeroCount ([] :: byte list) + 16 * nonZeroCount ([] :: byte list) < 2 ^ 64"
    by (simp add: zeroCount_Nil nonZeroCount_Nil)
  have g: "CalculateL1GasUsed [] 2750 = 2750"
    by (simp add: CalculateL1GasUsed_mod zeroCount_Nil nonZeroCount_Nil)
  show ?thesis
    using g by (simp add: getL1Fee_eq [OF small] CalculateL1Fee_def)
qed

text \<open>
  C3, amended: for every byte sequence whose byte cost is below \<open>2 ^ 64\<close> (every data
  shorter than \<open>2 ^ 60\<close> bytes) and every contract state, with the Go side given the
  contract's overhead, L1 base fee and scalar: whenever \<^verbatim>\<open>getL1GasUsed\<close> returns, it
  returns the value of \<^verbatim>\<open>CalculateL1GasUsed\<close>; whenever \<^verbatim>\<open>getL1Fee\<close> returns, it returns
  the value of \<^verbatim>\<open>CalculateL1Fee\<close>; and \<^verbatim>\<open>getL1Fee\<close> returns exactly when the gas used,
  the gas used times the base fee, and that times the scalar are all below \<open>2 ^ 256\<close>.
\<close>

theorem getL1Fee_agrees_when_it_returns:
  assumes "4 * zeroCount data + 16 * nonZeroCount data < 2 ^ 64"
  shows "(\<forall>g. getL1GasUsed c data = Some g \<longrightarrow>
            uint g = CalculateL1GasUsed data (uint (overhead c))) \<and>
         (\<forall>v. getL1Fee c data = Some v \<longrightarrow>
            uint v = CalculateL1Fee data (uint (overhead c)) (uint (l1BaseFee c))
                       (uint (scalar c))) \<and>
         (getL1Fee c data \<noteq> None \<longleftrightarrow>
            CalculateL1GasUsed data (uint (overhead c)) < 2 ^ 256 \<and>
            CalculateL1GasUsed data (uint (overhead c)) * uint (l1BaseFee c) < 2 ^ 256 \<and>
            CalculateL1Fee data (uint (overhead c)) (uint (l1BaseFee c)) (uint (scalar c))
              < 2 ^ 256)"
proof -
  let ?g = "CalculateL1GasUsed data (uint (overhead c))"
  let ?f = "CalculateL1Fee data (uint (overhead c)) (uint (l1BaseFee c)) (uint (scalar c))"
  have g0: "0 \<le> ?g" by (simp add: CalculateL1GasUsed_nonneg)
  have f: "?f = ?g * uint (l1BaseFee c) * uint (scalar c)"
    by (simp add: CalculateL1Fee_def)
  have f0: "0 \<le> ?f" unfolding f using g0 by simp
  have a: "\<forall>g. getL1GasUsed c data = Some g \<longrightarrow> uint g = ?g"
    using g0 by (auto simp add: getL1GasUsed_eq [OF assms] uint_word_of_int_256 split: if_splits)
  have b: "\<forall>v. getL1Fee c data = Some v \<longrightarrow> uint v = ?f"
  proof (cases "?g < 2 ^ 256 \<and> ?g * uint (l1BaseFee c) < 2 ^ 256 \<and>
                ?g * uint (l1BaseFee c) * uint (scalar c) < 2 ^ 256")
    case True
    have "getL1Fee c data = Some (word_of_int (?g * uint (l1BaseFee c) * uint (scalar c)))"
      unfolding getL1Fee_eq [OF assms] Let_def by (rule if_P) (rule True)
    moreover have "uint (word_of_int (?g * uint (l1BaseFee c) * uint (scalar c)) :: uint256)
                     = ?g * uint (l1BaseFee c) * uint (scalar c)"
      using f0 True unfolding f by (simp only: uint_word_of_int_256)
    ultimately show ?thesis unfolding f by simp
  next
    case False
    have "getL1Fee c data = None"
      unfolding getL1Fee_eq [OF assms] Let_def by (rule if_not_P) (rule False)
    then show ?thesis by simp
  qed
  have d: "getL1Fee c data \<noteq> None \<longleftrightarrow>
            ?g < 2 ^ 256 \<and> ?g * uint (l1BaseFee c) < 2 ^ 256 \<and> ?f < 2 ^ 256"
    by (simp add: getL1Fee_eq [OF assms] f Let_def)
  show ?thesis using a b d by blast
qed

theorem getL1Fee_agrees_when_it_returns_witness:
  "4 * zeroCount [0, 1, 2, 0] + 16 * nonZeroCount [0, 1, 2, 0] < 2 ^ 64 \<and>
   getL1Fee \<lparr>gasPrice = 1, l1BaseFee = 100, overhead = 2750, scalar = 1\<rparr> [0, 1, 2, 0]
     = Some 279000 \<and>
   CalculateL1Fee [0, 1, 2, 0] 2750 100 1 = 279000"
proof -
  let ?c = "\<lparr>gasPrice = 1, l1BaseFee = 100, overhead = 2750, scalar = 1\<rparr>"
  have small: "4 * zeroCount [0, 1, 2, 0 :: byte] + 16 * nonZeroCount [0, 1, 2, 0 :: byte] < 2 ^ 64"
    by (simp add: zeroCount_def nonZeroCount_def)
  have ev: "getL1Fee ?c [0, 1, 2, 0] = Some 279000"
    by (simp add: getL1Fee_def getL1GasUsed_def SafeMath_add_def SafeMath_mul_def)
  have "uint (279000 :: uint256) =
          CalculateL1Fee [0, 1, 2, 0] (uint (overhead ?c)) (uint (l1BaseFee ?c)) (uint (scalar ?c))"
    using getL1Fee_agrees_when_it_returns [OF small, of ?c] ev by blast
  then show ?thesis using small ev by simp
qed


end
